theory Spec2Isabelle
  imports Complex_Main "HOL-Library.AList" "HOL-Library.Multiset"
begin

section \<open>Data model\<close>

text \<open>
  The only data entity of \<^verbatim>\<open>molecular_analyzer.py\<close> is the atomic structure: a list of
  element symbols and a list of 3D positions. Coordinates are Python floats; they are
  modelled as real numbers, so every statement about arithmetic below is a statement in
  exact arithmetic.
\<close>

type_synonym vec = "real \<times> real \<times> real"

record atoms =
  symbols :: "string list"
  positions :: "vec list"


text \<open>\<^verbatim>\<open>len(atoms)\<close> and \<^verbatim>\<open>atoms.get_chemical_symbols()\<close>.\<close>

definition len :: "atoms \<Rightarrow> nat" where
  "len a = length (symbols a)"

definition get_chemical_symbols :: "atoms \<Rightarrow> string list" where
  "get_chemical_symbols a = symbols a"

text \<open>
  Exceptions are values. Every exception of the model is an instance of Python's
  \<^verbatim>\<open>Exception\<close> class (the class the script's handlers name) and carries its message.
\<close>

datatype error = ValueError string | Error string

fun str :: "error \<Rightarrow> string" where
  "str (ValueError m) = m"
| "str (Error m) = m"

section \<open>Strings\<close>

text \<open>
  The string methods used by the manual parser, on ASCII text: \<^verbatim>\<open>str.isspace\<close>,
  \<^verbatim>\<open>str.isdigit\<close>, \<^verbatim>\<open>str.isalpha\<close> on one character, \<^verbatim>\<open>strip()\<close>,
  \<^verbatim>\<open>split()\<close> without arguments and \<^verbatim>\<open>startswith\<close>.
\<close>

definition isspace :: "char \<Rightarrow> bool" where
  "isspace c = (let n = (of_char c :: nat) in n = 32 \<or> (9 \<le> n \<and> n \<le> 13) \<or> (28 \<le> n \<and> n \<le> 31))"

definition isdigit :: "char \<Rightarrow> bool" where
  "isdigit c = (let n = (of_char c :: nat) in 48 \<le> n \<and> n \<le> 57)"



fun split_from :: "string \<Rightarrow> string \<Rightarrow> string list" where
  "split_from cur [] = (if cur = [] then [] else [cur])"
| "split_from cur (c # cs) =
     (if isspace c then (if cur = [] then split_from [] cs else cur # split_from [] cs)
      else split_from (cur @ [c]) cs)"

definition split :: "string \<Rightarrow> string list" where
  "split s = split_from [] s"


text \<open>
  \<^verbatim>\<open>float(s)\<close> is a builtin: the parser takes it as a parameter \<open>float\<close>, with
  \<open>None\<close> for the \<^verbatim>\<open>ValueError\<close> it raises on text that is no number. \<open>decimal\<close>
  is its value on plain decimal literals (an optional sign, digits, an optional point),
  used to run the parser on concrete files.
\<close>

fun digits_val :: "nat \<Rightarrow> string \<Rightarrow> nat option" where
  "digits_val acc [] = Some acc"
| "digits_val acc (c # cs) =
     (if isdigit c then digits_val (10 * acc + (of_char c - 48)) cs else None)"

definition unsigned_decimal :: "string \<Rightarrow> real option" where
  "unsigned_decimal s =
     (let ip = takeWhile (\<lambda>c. c \<noteq> CHR ''.'') s;
          rest = dropWhile (\<lambda>c. c \<noteq> CHR ''.'') s
      in case rest of
           [] \<Rightarrow> (if ip = [] then None else map_option real (digits_val 0 ip))
         | _ # fp \<Rightarrow>
             (if ip = [] \<and> fp = [] then None
              else case digits_val 0 ip of
                     None \<Rightarrow> None
                   | Some i \<Rightarrow>
                       (case digits_val 0 fp of
                          None \<Rightarrow> None
                        | Some f \<Rightarrow> Some (real i + real f / 10 ^ length fp))))"

definition decimal :: "string \<Rightarrow> real option" where
  "decimal s =
     (case s of
        [] \<Rightarrow> None
      | c # r \<Rightarrow>
          (if c = CHR ''-'' then map_option uminus (unsigned_decimal r)
           else if c = CHR ''+'' then unsigned_decimal r
           else unsigned_decimal s))"

section \<open>Parsing\<close>






section \<open>Property estimates\<close>

text \<open>\<^verbatim>\<open>dict.get(key, default)\<close> on a dictionary given as a map.\<close>

definition dict_get :: "('k \<rightharpoonup> 'v) \<Rightarrow> 'k \<Rightarrow> 'v \<Rightarrow> 'v" where
  "dict_get d k dflt = (case d k of None \<Rightarrow> dflt | Some v \<Rightarrow> v)"

definition vdw_radii :: "string \<rightharpoonup> real" where
  "vdw_radii = map_of
     [(''H'', 1.2), (''C'', 1.7), (''N'', 1.55), (''O'', 1.52), (''S'', 1.8), (''P'', 1.8)]"

text \<open>
  \<^verbatim>\<open>_calculate_molecular_volume\<close>: \<^verbatim>\<open>total_volume\<close> starts at 0 and the loop adds one
  term per symbol, in list order.
\<close>

definition calculate_molecular_volume :: "atoms \<Rightarrow> real" where
  "calculate_molecular_volume a =
     foldl (\<lambda>total_volume symbol.
              total_volume + (4 / 3) * pi * (dict_get vdw_radii symbol 1.5) ^ 3)
       0 (get_chemical_symbols a)"

text \<open>\<^verbatim>\<open>_estimate_polarizability\<close>.\<close>

definition estimate_polarizability :: "atoms \<Rightarrow> real" where
  "estimate_polarizability a = 0.1 * calculate_molecular_volume a"

text \<open>
  \<^verbatim>\<open>_estimate_ir_frequencies\<close>: three independent tests on the list of symbols, each
  extending the list of frequencies, and \<^verbatim>\<open>sorted\<close> at the end.
\<close>

definition estimate_ir_frequencies :: "atoms \<Rightarrow> int list" where
  "estimate_ir_frequencies a =
     (let syms = get_chemical_symbols a;
          f0 = [];
          f1 = (if ''O'' \<in> set syms \<and> ''H'' \<in> set syms then f0 @ [3200, 3400] else f0);
          f2 = (if ''C'' \<in> set syms \<and> ''O'' \<in> set syms then f1 @ [1700] else f1);
          f3 = (if ''C'' \<in> set syms \<and> ''H'' \<in> set syms then f2 @ [2900, 3000] else f2)
      in sort f3)"

text \<open>
  \<^verbatim>\<open>_estimate_uv_vis\<close>: the generator sums one 1 for every symbol among C, N, O.
\<close>

definition estimate_uv_vis :: "atoms \<Rightarrow> real" where
  "estimate_uv_vis a =
     (let n_pi_electrons =
            sum_list (map (\<lambda>sym. 1 :: nat)
                        (filter (\<lambda>sym. sym \<in> set [''C'', ''N'', ''O'']) (get_chemical_symbols a)));
          lambda_max = 200 + 30 * sqrt (real n_pi_electrons)
      in min lambda_max 800)"

text \<open>
  \<^verbatim>\<open>_identify_binding_sites\<close>: the index, symbol and position of every atom whose
  symbol is O, N or S; \<^verbatim>\<open>zip\<close> stops at the shorter list.
\<close>

definition identify_binding_sites :: "atoms \<Rightarrow> (nat \<times> string \<times> vec) list" where
  "identify_binding_sites a =
     map (\<lambda>(i, pos, sym). (i, sym, pos))
       (filter (\<lambda>(i, pos, sym). sym \<in> set [''O'', ''N'', ''S''])
          (zip [0 ..< length (zip (positions a) (get_chemical_symbols a))]
               (zip (positions a) (get_chemical_symbols a))))"

section \<open>Structures in the store\<close>

text \<open>
  Vectors of three coordinates with the array arithmetic the script uses.
\<close>

fun vadd :: "vec \<Rightarrow> vec \<Rightarrow> vec" where
  "vadd (a, b, c) (x, y, z) = (a + x, b + y, c + z)"

fun vsub :: "vec \<Rightarrow> vec \<Rightarrow> vec" where
  "vsub (a, b, c) (x, y, z) = (a - x, b - y, c - z)"

fun smult :: "real \<Rightarrow> vec \<Rightarrow> vec" where
  "smult k (x, y, z) = (k * x, k * y, k * z)"

fun vdiv :: "vec \<Rightarrow> real \<Rightarrow> vec" where
  "vdiv (x, y, z) k = (x / k, y / k, z / k)"

definition vsum :: "vec list \<Rightarrow> vec" where
  "vsum vs = foldr vadd vs (0, 0, 0)"

text \<open>
  The operations of the external structure library on the data model. Atomic masses are
  a table of that library, taken as the parameter \<open>mass\<close>.
  \<^verbatim>\<open>get_center_of_mass\<close> is \<^verbatim>\<open>masses @ positions / masses.sum()\<close>; where the total
  mass is zero numpy yields \<^verbatim>\<open>nan\<close>, which the reals do not have, so statements about
  it below assume a total mass that is not zero. \<^verbatim>\<open>translate\<close> adds the displacement
  to every position; \<^verbatim>\<open>extend\<close> (the \<^verbatim>\<open>+=\<close> behind \<^verbatim>\<open>+\<close>, here \<open>extend_atoms\<close>) appends the atoms of the
  other structure.
\<close>

definition get_masses :: "(string \<Rightarrow> real) \<Rightarrow> atoms \<Rightarrow> real list" where
  "get_masses mass a = map mass (symbols a)"

definition get_center_of_mass :: "(string \<Rightarrow> real) \<Rightarrow> atoms \<Rightarrow> vec" where
  "get_center_of_mass mass a =
     (let masses = get_masses mass a
      in vdiv (vsum (map2 smult masses (positions a))) (sum_list masses))"

definition translate_atoms :: "atoms \<Rightarrow> vec \<Rightarrow> atoms" where
  "translate_atoms a d = a\<lparr>positions := map (\<lambda>p. vadd p d) (positions a)\<rparr>"

definition extend_atoms :: "atoms \<Rightarrow> atoms \<Rightarrow> atoms" where
  "extend_atoms a b = \<lparr>symbols = symbols a @ symbols b, positions = positions a @ positions b\<rparr>"

text \<open>
  Structures are Python objects: a variable holds a reference, and \<^verbatim>\<open>translate\<close>
  changes the object in place. The store is the list of all structures allocated so far;
  a reference is an index into it, and a new object is appended. \<open>trace\<close> records the
  method calls that \<^verbatim>\<open>analyze_complex\<close> makes and \<open>files\<close> the files the script
  writes, in order (the trajectory files of the optimizer are the library's own).
\<close>

type_synonym ref = nat

datatype pyval =
    PyInt int
  | PyFloat real
  | PyFloatList "real list"
  | PySites "(nat \<times> string \<times> vec) list"
  | PyIntList "int list"
  | PyStr string

type_synonym dict = "(string \<times> pyval) list"

datatype event =
    ParseGjfFile string
  | OptimizeStructure ref
  | CreateComplex ref ref
  | OptimizeComplex ref
  | CalculateProperties ref
  | SaveGjfFile ref string
  | WriteProperties string dict

record world =
  heap :: "atoms list"
  trace :: "event list"
  files :: "(string \<times> string list) list"

definition alloc :: "atoms \<Rightarrow> world \<Rightarrow> ref \<times> world" where
  "alloc a w = (length (heap w), w\<lparr>heap := heap w @ [a]\<rparr>)"

text \<open>\<^verbatim>\<open>atoms.copy()\<close>: a new object with copies of both arrays.\<close>

definition copy :: "ref \<Rightarrow> world \<Rightarrow> ref \<times> world" where
  "copy r w = alloc (heap w ! r) w"

text \<open>\<^verbatim>\<open>atoms.translate(displacement)\<close>, in place.\<close>

definition translate :: "ref \<Rightarrow> vec \<Rightarrow> world \<Rightarrow> world" where
  "translate r d w = w\<lparr>heap := (heap w)[r := translate_atoms (heap w ! r) d]\<rparr>"

text \<open>
  \<^verbatim>\<open>a + b\<close> on structures: the library copies \<^verbatim>\<open>a\<close> and extends the copy by
  \<^verbatim>\<open>b\<close> in place.
\<close>

definition add :: "ref \<Rightarrow> ref \<Rightarrow> world \<Rightarrow> ref \<times> world" where
  "add r1 r2 w =
     (case copy r1 w of (c, w1) \<Rightarrow>
        (c, w1\<lparr>heap := (heap w1)[c := extend_atoms (heap w1 ! c) (heap w1 ! r2)]\<rparr>))"

text \<open>
  What the script takes from outside: the library tables, the builtin \<^verbatim>\<open>float\<close>, the
  external reader and the file system, the force-field calculator (\<open>calc_available\<close>
  is \<^verbatim>\<open>self.fairchem_calc is not None\<close>), the optimizer, the random generator and the
  formatting of numbers. \<open>relax\<close> is \<^verbatim>\<open>set_calculator\<close> followed by the BFGS run on
  the copied structure, with the \<^verbatim>\<open>fmax\<close> and \<^verbatim>\<open>steps\<close> it is given: it gives the
  state the copy is left in and the exception, if one was raised. \<open>gauss i\<close> is the
  \<open>i\<close>-th standard normal sample the generator delivers during one call of
  \<^verbatim>\<open>calculate_properties\<close>; \<^verbatim>\<open>np.random.normal(loc, scale)\<close> is
  \<open>loc + scale * sample\<close>.
\<close>

record env =
  mass :: "string \<Rightarrow> real"
  atomic_number :: "string \<Rightarrow> nat"
  to_float :: "string \<Rightarrow> real option"
  ase_read :: "string \<Rightarrow> error + atoms"
  readlines :: "string \<Rightarrow> error + string list"
  calc_available :: bool
  relax :: "real \<Rightarrow> nat \<Rightarrow> atoms \<Rightarrow> atoms \<times> error option"
  potential_energy :: "atoms \<Rightarrow> error + real"
  forces :: "atoms \<Rightarrow> error + vec list"
  gauss :: "nat \<Rightarrow> real"
  open_write :: "string \<Rightarrow> error option"
  fmt_float :: "real \<Rightarrow> string"
  fmt_int :: "int \<Rightarrow> string"
  fmt_value :: "pyval \<Rightarrow> string"

section \<open>Optimization and complex formation\<close>

text \<open>
  \<^verbatim>\<open>optimize_structure\<close>. Without a calculator the argument itself is returned. Otherwise
  the structure is copied and the optimizer runs on the copy; if it raises, the handler
  returns the argument, and the copy stays in the store as the optimizer left it.
\<close>

definition optimize_structure ::
  "env \<Rightarrow> ref \<Rightarrow> real \<Rightarrow> nat \<Rightarrow> world \<Rightarrow> ref \<times> world"
where
  "optimize_structure X atoms fmax steps w =
     (if \<not> calc_available X then (atoms, w)
      else
        (case copy atoms w of (atoms_copy, w1) \<Rightarrow>
           (case relax X fmax steps (heap w1 ! atoms_copy) of (a', err) \<Rightarrow>
              (let w2 = w1\<lparr>heap := (heap w1)[atoms_copy := a']\<rparr>
               in case err of
                    None \<Rightarrow> (atoms_copy, w2)
                  | Some e \<Rightarrow> (atoms, w2)))))"

text \<open>\<^verbatim>\<open>create_complex\<close>.\<close>

definition create_complex :: "env \<Rightarrow> ref \<Rightarrow> ref \<Rightarrow> real \<Rightarrow> world \<Rightarrow> ref \<times> world" where
  "create_complex X absorbent analyte separation_distance w =
     (let abs_com = get_center_of_mass (mass X) (heap w ! absorbent);
          ana_com = get_center_of_mass (mass X) (heap w ! analyte)
      in case copy analyte w of (analyte_copy, w1) \<Rightarrow>
           (let displacement = vsub (vadd (0, 0, separation_distance) abs_com) ana_com;
                w2 = translate analyte_copy displacement w1
            in add absorbent analyte_copy w2))"


section \<open>Property calculation\<close>

text \<open>
  \<^verbatim>\<open>np.random.normal(loc, scale)\<close> on a standard normal sample, and the estimates that
  draw from it. \<^verbatim>\<open>get_atomic_numbers\<close> reads a table of the structure library. In the
  library the arrays of a structure have one length, so \<^verbatim>\<open>len(atoms)\<close> is also the number
  of positions.
\<close>

definition normal :: "real \<Rightarrow> real \<Rightarrow> real \<Rightarrow> real" where
  "normal loc scale sample = loc + scale * sample"

definition estimate_homo_lumo_gap :: "env \<Rightarrow> atoms \<Rightarrow> real \<Rightarrow> real" where
  "estimate_homo_lumo_gap X a sample =
     (let n_electrons = sum_list (map (atomic_number X) (symbols a))
      in if n_electrons < 10 then 8.0 + normal 0 0.5 sample
         else if n_electrons < 50 then 4.0 + normal 0 1.0 sample
         else 2.0 + normal 0 0.5 sample)"

fun norm3 :: "vec \<Rightarrow> real" where
  "norm3 (x, y, z) = sqrt (x\<^sup>2 + y\<^sup>2 + z\<^sup>2)"

definition calculate_dipole_moment :: "atoms \<Rightarrow> real list \<Rightarrow> real" where
  "calculate_dipole_moment a samples =
     (let charges = map (normal 0 0.1) samples;
          dipole = vsum (map2 smult charges (positions a))
      in norm3 dipole)"

definition estimate_binding_energy :: "atoms \<Rightarrow> real \<Rightarrow> real" where
  "estimate_binding_energy a sample =
     (let n_atoms = len a in - 5.0 - 0.1 * real n_atoms + normal 0 1.0 sample)"

text \<open>
  \<^verbatim>\<open>np.sqrt(np.mean(forces**2))\<close>: the mean runs over all three components of all
  forces.
\<close>

definition forces_rms :: "vec list \<Rightarrow> real" where
  "forces_rms fs =
     sqrt (sum_list (map (\<lambda>(x, y, z). x\<^sup>2 + y\<^sup>2 + z\<^sup>2) fs) / real (3 * length fs))"

fun tolist :: "vec \<Rightarrow> real list" where
  "tolist (x, y, z) = [x, y, z]"

text \<open>
  The \<^verbatim>\<open>try\<close> block of \<^verbatim>\<open>calculate_properties\<close> is a sequence of assignments
  \<^verbatim>\<open>properties[key] = value\<close>. A statement takes the dictionary and gives it back,
  changed, together with the exception it raised, if any: what was stored before an
  exception stays stored. \<open>assign\<close> evaluates its right-hand side first, so a raising
  right-hand side stores nothing. Dictionaries keep insertion order.
\<close>

type_synonym stmt = "dict \<Rightarrow> dict \<times> error option"

definition set_item :: "string \<Rightarrow> pyval \<Rightarrow> dict \<Rightarrow> dict" where
  "set_item key v d = AList.update key v d"

definition assign :: "string \<times> (error + pyval) \<Rightarrow> stmt" where
  "assign s d =
     (case snd s of
        Inl e \<Rightarrow> (d, Some e)
      | Inr v \<Rightarrow> (set_item (fst s) v d, None))"

definition then_stmt :: "stmt \<Rightarrow> stmt \<Rightarrow> stmt" where
  "then_stmt s t d =
     (case s d of
        (d', Some e) \<Rightarrow> (d', Some e)
      | (d', None) \<Rightarrow> t d')"

definition pass :: stmt where
  "pass d = (d, None)"

definition block :: "stmt list \<Rightarrow> stmt" where
  "block ss = foldr then_stmt ss pass"

text \<open>
  The assignments of the \<^verbatim>\<open>try\<close> block in source order, each with the outcome of its
  right-hand side. The two energy entries are there only with a calculator; they are the
  ones that call the force field (\<open>potential_energy\<close> stands for \<^verbatim>\<open>set_calculator\<close>
  followed by \<^verbatim>\<open>get_potential_energy\<close>). The generator delivers sample 0 to the gap
  estimate, the next \<^verbatim>\<open>len(atoms)\<close> samples to the mock charges and the one after
  them to the binding energy.
\<close>

definition property_steps :: "env \<Rightarrow> atoms \<Rightarrow> (string \<times> (error + pyval)) list" where
  "property_steps X complex_atoms =
     [(''total_atoms'', Inr (PyInt (int (len complex_atoms)))),
      (''molecular_volume'', Inr (PyFloat (calculate_molecular_volume complex_atoms))),
      (''center_of_mass'', Inr (PyFloatList (tolist (get_center_of_mass (mass X) complex_atoms))))]
     @ (if calc_available X then
          [(''total_energy'', map_sum id PyFloat (potential_energy X complex_atoms)),
           (''forces_rms'', map_sum id (\<lambda>fs. PyFloat (forces_rms fs)) (forces X complex_atoms))]
        else [])
     @ [(''homo_lumo_gap'', Inr (PyFloat (estimate_homo_lumo_gap X complex_atoms (gauss X 0)))),
        (''dipole_moment'',
           Inr (PyFloat (calculate_dipole_moment complex_atoms
                         (map (gauss X) [1 ..< 1 + len complex_atoms])))),
        (''polarizability'', Inr (PyFloat (estimate_polarizability complex_atoms))),
        (''binding_energy'',
           Inr (PyFloat (estimate_binding_energy complex_atoms (gauss X (1 + len complex_atoms))))),
        (''binding_sites'', Inr (PySites (identify_binding_sites complex_atoms))),
        (''ir_frequencies'', Inr (PyIntList (estimate_ir_frequencies complex_atoms))),
        (''uv_vis_absorption'', Inr (PyFloat (estimate_uv_vis complex_atoms)))]"

text \<open>
  \<^verbatim>\<open>calculate_properties\<close>: the block runs on the empty dictionary; the handler
  \<^verbatim>\<open>except Exception as e\<close> stores \<^verbatim>\<open>str(e)\<close> under \<^verbatim>\<open>'error'\<close>; the dictionary is
  returned on both paths.
\<close>

definition calculate_properties :: "env \<Rightarrow> atoms \<Rightarrow> error + dict" where
  "calculate_properties X complex_atoms =
     (case block (map assign (property_steps X complex_atoms)) [] of
        (properties, None) \<Rightarrow> Inr properties
      | (properties, Some e) \<Rightarrow> Inr (set_item ''error'' (PyStr (str e)) properties))"

section \<open>The pipeline\<close>













section \<open>A sample environment\<close>

text \<open>
  Concrete values for the external parameters, to run the model on small inputs: whole
  masses and atomic numbers for a few elements, no calculator, a reader that rejects
  every file.
\<close>

definition sample_env :: env where
  "sample_env =
     \<lparr>mass = (\<lambda>s. if s = ''H'' then 1 else if s = ''C'' then 12 else if s = ''O'' then 16 else 14),
      atomic_number = (\<lambda>s. if s = ''H'' then 1 else if s = ''C'' then 6 else if s = ''O'' then 8 else 7),
      to_float = decimal,
      ase_read = (\<lambda>path. Inl (Error ''unknown format'')),
      readlines = (\<lambda>path. Inl (Error ''no such file'')),
      calc_available = False,
      relax = (\<lambda>fmax steps a. (a, None)),
      potential_energy = (\<lambda>a. Inr 0),
      forces = (\<lambda>a. Inr (map (\<lambda>p. (0, 0, 0)) (positions a))),
      gauss = (\<lambda>i. 0),
      open_write = (\<lambda>path. None),
      fmt_float = (\<lambda>x. ''0.000000''),
      fmt_int = (\<lambda>i. ''0''),
      fmt_value = (\<lambda>v. ''value'')\<rparr>"

text \<open>
  A store with two structures, a carbon atom at the origin and two hydrogen atoms, and
  two environments with a calculator: one whose optimizer moves the structure and
  finishes, one whose optimizer moves the structure and then raises.
\<close>

definition sample_world :: world where
  "sample_world =
     \<lparr>heap = [\<lparr>symbols = [''C''], positions = [(0, 0, 0)]\<rparr>,
              \<lparr>symbols = [''H'', ''H''], positions = [(0, 0, 0), (2, 0, 0)]\<rparr>],
      trace = [], files = []\<rparr>"

definition converging_env :: env where
  "converging_env =
     sample_env\<lparr>calc_available := True,
                relax := (\<lambda>fmax steps a. (translate_atoms a (1, 0, 0), None))\<rparr>"

definition failing_env :: env where
  "failing_env =
     sample_env\<lparr>calc_available := True,
                relax := (\<lambda>fmax steps a. (translate_atoms a (1, 0, 0), Some (Error ''optimizer failed'')))\<rparr>"

text \<open>An environment whose calculator is there but fails when asked for the energy.\<close>

definition no_model_env :: env where
  "no_model_env =
     sample_env\<lparr>calc_available := True,
                potential_energy := (\<lambda>a. Inl (Error ''model not loaded''))\<rparr>"



section \<open>Properties of the parser\<close>






section \<open>Properties of the estimates\<close>







lemma ir_cases:
  "estimate_ir_frequencies a =
     (if ''O'' \<in> set (symbols a) \<and> ''H'' \<in> set (symbols a) then
        (if ''C'' \<in> set (symbols a) then [1700, 2900, 3000, 3200, 3400] else [3200, 3400])
      else if ''C'' \<in> set (symbols a) \<and> ''O'' \<in> set (symbols a) then [1700]
      else if ''C'' \<in> set (symbols a) \<and> ''H'' \<in> set (symbols a) then [2900, 3000]
      else [])"
  by (simp add: estimate_ir_frequencies_def get_chemical_symbols_def Let_def)

text \<open>
  C5. \<^verbatim>\<open>_estimate_ir_frequencies\<close> returns a sorted list that holds 3200 and 3400
  exactly when O and H are both present, 1700 exactly when C and O are, 2900 and 3000
  exactly when C and H are, and nothing else; two structures with the same set of
  symbols get the same list.
\<close>

theorem estimate_ir_frequencies_by_presence:
  "sorted (estimate_ir_frequencies a)
   \<and> (3200 \<in> set (estimate_ir_frequencies a) \<longleftrightarrow> ''O'' \<in> set (symbols a) \<and> ''H'' \<in> set (symbols a))
   \<and> (3400 \<in> set (estimate_ir_frequencies a) \<longleftrightarrow> ''O'' \<in> set (symbols a) \<and> ''H'' \<in> set (symbols a))
   \<and> (1700 \<in> set (estimate_ir_frequencies a) \<longleftrightarrow> ''C'' \<in> set (symbols a) \<and> ''O'' \<in> set (symbols a))
   \<and> (2900 \<in> set (estimate_ir_frequencies a) \<longleftrightarrow> ''C'' \<in> set (symbols a) \<and> ''H'' \<in> set (symbols a))
   \<and> (3000 \<in> set (estimate_ir_frequencies a) \<longleftrightarrow> ''C'' \<in> set (symbols a) \<and> ''H'' \<in> set (symbols a))
   \<and> set (estimate_ir_frequencies a) \<subseteq> {1700, 2900, 3000, 3200, 3400}
   \<and> (\<forall>b. set (symbols a) = set (symbols b)
          \<longrightarrow> estimate_ir_frequencies a = estimate_ir_frequencies b)"
proof (intro conjI allI impI)
  show "sorted (estimate_ir_frequencies a)"
    unfolding ir_cases by simp
  show "3200 \<in> set (estimate_ir_frequencies a) \<longleftrightarrow> ''O'' \<in> set (symbols a) \<and> ''H'' \<in> set (symbols a)"
    unfolding ir_cases by simp
  show "3400 \<in> set (estimate_ir_frequencies a) \<longleftrightarrow> ''O'' \<in> set (symbols a) \<and> ''H'' \<in> set (symbols a)"
    unfolding ir_cases by simp
  show "1700 \<in> set (estimate_ir_frequencies a) \<longleftrightarrow> ''C'' \<in> set (symbols a) \<and> ''O'' \<in> set (symbols a)"
    unfolding ir_cases by simp
  show "2900 \<in> set (estimate_ir_frequencies a) \<longleftrightarrow> ''C'' \<in> set (symbols a) \<and> ''H'' \<in> set (symbols a)"
    unfolding ir_cases by simp
  show "3000 \<in> set (estimate_ir_frequencies a) \<longleftrightarrow> ''C'' \<in> set (symbols a) \<and> ''H'' \<in> set (symbols a)"
    unfolding ir_cases by simp
  show "set (estimate_ir_frequencies a) \<subseteq> {1700, 2900, 3000, 3200, 3400}"
    unfolding ir_cases by auto
next
  fix b :: atoms assume "set (symbols a) = set (symbols b)"
  then show "estimate_ir_frequencies a = estimate_ir_frequencies b"
    unfolding ir_cases by simp
qed

theorem estimate_ir_frequencies_by_presence_witness:
  "set (symbols \<lparr>symbols = [''C'', ''O'', ''O''], positions = [(0, 0, 0), (1, 0, 0), (2, 0, 0)]\<rparr>)
     = set (symbols \<lparr>symbols = [''O'', ''C''], positions = [(0, 0, 0), (0, 0, 1)]\<rparr>)
   \<and> estimate_ir_frequencies
       \<lparr>symbols = [''C'', ''O'', ''O''], positions = [(0, 0, 0), (1, 0, 0), (2, 0, 0)]\<rparr>
     = estimate_ir_frequencies \<lparr>symbols = [''O'', ''C''], positions = [(0, 0, 0), (0, 0, 1)]\<rparr>
   \<and> estimate_ir_frequencies \<lparr>symbols = [''O'', ''C''], positions = [(0, 0, 0), (0, 0, 1)]\<rparr>
     = [1700]"
proof -
  let ?a = "\<lparr>symbols = [''C'', ''O'', ''O''], positions = [(0, 0, 0), (1, 0, 0), (2, 0, 0 :: real)]\<rparr>"
  let ?b = "\<lparr>symbols = [''O'', ''C''], positions = [(0, 0, 0), (0, 0, 1 :: real)]\<rparr>"
  have h: "set (symbols ?a) = set (symbols ?b)"
    by auto
  from estimate_ir_frequencies_by_presence [of ?a] have
    "set (symbols ?a) = set (symbols ?b)
       \<longrightarrow> estimate_ir_frequencies ?a = estimate_ir_frequencies ?b"
    by blast
  with h have same: "estimate_ir_frequencies ?a = estimate_ir_frequencies ?b"
    by blast
  have val: "estimate_ir_frequencies ?b = [1700]"
    by (simp add: estimate_ir_frequencies_def get_chemical_symbols_def)
  from h same val show ?thesis
    by blast
qed

lemma count_ones: "sum_list (map (\<lambda>x. 1 :: nat) xs) = length xs"
  by (induction xs) simp_all

lemma estimate_uv_vis_eq:
  "estimate_uv_vis a
     = min (200 + 30 * sqrt (real (length (filter (\<lambda>s. s \<in> set [''C'', ''N'', ''O''])
                                             (symbols a))))) 800"
  unfolding estimate_uv_vis_def get_chemical_symbols_def Let_def count_ones ..

text \<open>
  C10. \<^verbatim>\<open>_estimate_uv_vis\<close> is \<open>200 + 30 \<surd>n\<close> capped at 800, with \<open>n\<close> the number
  of atoms whose symbol is C, N or O; it lies between 200 and 800.
\<close>

theorem estimate_uv_vis_range:
  "estimate_uv_vis a
     = min (200 + 30 * sqrt (real (length (filter (\<lambda>s. s \<in> set [''C'', ''N'', ''O''])
                                             (symbols a))))) 800
   \<and> 200 \<le> estimate_uv_vis a \<and> estimate_uv_vis a \<le> 800"
  unfolding estimate_uv_vis_eq by simp

section \<open>Properties of complex formation and optimization\<close>





lemma create_complex_heap:
  assumes "absorbent < length (heap w)" and "analyte < length (heap w)"
  shows "create_complex X absorbent analyte sep w =
    (Suc (length (heap w)),
     w\<lparr>heap := heap w @
        [translate_atoms (heap w ! analyte)
           (vsub (vadd (0, 0, sep) (get_center_of_mass (mass X) (heap w ! absorbent)))
                 (get_center_of_mass (mass X) (heap w ! analyte))),
         extend_atoms (heap w ! absorbent)
           (translate_atoms (heap w ! analyte)
             (vsub (vadd (0, 0, sep) (get_center_of_mass (mass X) (heap w ! absorbent)))
                   (get_center_of_mass (mass X) (heap w ! analyte))))]\<rparr>)"
  using assms
  by (simp add: create_complex_def copy_def alloc_def translate_def add_def Let_def
      nth_append list_update_append)


lemma sample_centers:
  "get_center_of_mass (mass sample_env) \<lparr>symbols = [''C''], positions = [(0, 0, 0)]\<rparr> = (0, 0, 0)"
  "get_center_of_mass (mass sample_env)
     \<lparr>symbols = [''H'', ''H''], positions = [(0, 0, 0), (2, 0, 0)]\<rparr> = (1, 0, 0)"
  by (simp_all add: get_center_of_mass_def get_masses_def sample_env_def vsum_def)

lemma sample_create_complex:
  "create_complex sample_env 0 1 3 sample_world
     = (3, sample_world\<lparr>heap := heap sample_world @
             [\<lparr>symbols = [''H'', ''H''], positions = [(- 1, 0, 3), (1, 0, 3)]\<rparr>,
              \<lparr>symbols = [''C'', ''H'', ''H''],
               positions = [(0, 0, 0), (- 1, 0, 3), (1, 0, 3)]\<rparr>]\<rparr>)"
  by (simp add: create_complex_def sample_world_def copy_def alloc_def translate_def add_def
      Let_def sample_centers translate_atoms_def extend_atoms_def)


text \<open>
  C8. \<^verbatim>\<open>create_complex\<close> leaves every structure that was in the store as it was, the
  absorbent and the analyte among them (also when both arguments are the same object):
  the translated analyte is a new object, placed after all existing ones, and so is the
  combined structure that is returned.
\<close>

theorem create_complex_frame:
  assumes refs: "absorbent < length (heap w)" "analyte < length (heap w)"
    and run: "create_complex X absorbent analyte separation_distance w = (c, w')"
  shows "heap w' ! absorbent = heap w ! absorbent
    \<and> heap w' ! analyte = heap w ! analyte
    \<and> take (length (heap w)) (heap w') = heap w
    \<and> length (heap w) < c \<and> c < length (heap w')
    \<and> positions (heap w' ! length (heap w))
        = map (\<lambda>p. vadd p (vsub (vadd (0, 0, separation_distance)
                                      (get_center_of_mass (mass X) (heap w ! absorbent)))
                                (get_center_of_mass (mass X) (heap w ! analyte))))
            (positions (heap w ! analyte))"
proof -
  from run have c: "c = Suc (length (heap w))"
    and w': "heap w' = heap w @
        [translate_atoms (heap w ! analyte)
           (vsub (vadd (0, 0, separation_distance) (get_center_of_mass (mass X) (heap w ! absorbent)))
                 (get_center_of_mass (mass X) (heap w ! analyte))),
         extend_atoms (heap w ! absorbent)
           (translate_atoms (heap w ! analyte)
             (vsub (vadd (0, 0, separation_distance) (get_center_of_mass (mass X) (heap w ! absorbent)))
                   (get_center_of_mass (mass X) (heap w ! analyte))))]"
    unfolding create_complex_heap [OF refs] by auto
  show ?thesis
    unfolding c w' using refs by (simp add: nth_append translate_atoms_def)
qed

theorem create_complex_frame_witness:
  "0 < length (heap sample_world) \<and> 1 < length (heap sample_world)
   \<and> fst (create_complex sample_env 0 1 3 sample_world) = 3
   \<and> heap (snd (create_complex sample_env 0 1 3 sample_world)) ! 0
       = \<lparr>symbols = [''C''], positions = [(0, 0, 0)]\<rparr>
   \<and> heap (snd (create_complex sample_env 0 1 3 sample_world)) ! 1
       = \<lparr>symbols = [''H'', ''H''], positions = [(0, 0, 0), (2, 0, 0)]\<rparr>"
proof -
  have h1: "0 < length (heap sample_world)" and h2: "1 < length (heap sample_world)"
    by (simp_all add: sample_world_def)
  have run: "create_complex sample_env 0 1 3 sample_world
      = (fst (create_complex sample_env 0 1 3 sample_world),
         snd (create_complex sample_env 0 1 3 sample_world))"
    by simp
  from create_complex_frame [OF h1 h2 run]
  have "heap (snd (create_complex sample_env 0 1 3 sample_world)) ! 0 = heap sample_world ! 0"
    and "heap (snd (create_complex sample_env 0 1 3 sample_world)) ! 1 = heap sample_world ! 1"
    by blast+
  then have "heap (snd (create_complex sample_env 0 1 3 sample_world)) ! 0
       = \<lparr>symbols = [''C''], positions = [(0, 0, 0)]\<rparr>"
    and "heap (snd (create_complex sample_env 0 1 3 sample_world)) ! 1
       = \<lparr>symbols = [''H'', ''H''], positions = [(0, 0, 0), (2, 0, 0)]\<rparr>"
    by (simp_all add: sample_world_def)
  moreover have "fst (create_complex sample_env 0 1 3 sample_world) = 3"
    unfolding sample_create_complex by simp
  ultimately show ?thesis
    using h1 h2 by blast
qed

lemma optimize_structure_heap:
  assumes "atoms < length (heap w)"
  shows "optimize_structure X atoms fmax steps w =
    (if \<not> calc_available X then (atoms, w)
     else (case snd (relax X fmax steps (heap w ! atoms)) of None \<Rightarrow> length (heap w) | Some e \<Rightarrow> atoms,
           w\<lparr>heap := heap w @ [fst (relax X fmax steps (heap w ! atoms))]\<rparr>))"
  using assms
  by (simp add: optimize_structure_def copy_def alloc_def Let_def nth_append
      split: prod.splits option.splits)

text \<open>
  C9. \<^verbatim>\<open>optimize_structure\<close> returns its argument when there is no calculator (and then
  changes nothing at all) and when the optimizer raises; when the optimizer finishes it
  returns a new object, the copy as the optimizer left it. In every case the argument,
  like every structure that was in the store, has the symbols and positions it had.
\<close>

theorem optimize_structure_frame:
  assumes ref: "atoms < length (heap w)"
    and run: "optimize_structure X atoms fmax steps w = (r, w')"
  shows "(\<not> calc_available X \<longrightarrow> r = atoms \<and> w' = w)
    \<and> (calc_available X \<and> snd (relax X fmax steps (heap w ! atoms)) \<noteq> None \<longrightarrow> r = atoms)
    \<and> (calc_available X \<and> snd (relax X fmax steps (heap w ! atoms)) = None \<longrightarrow>
          r = length (heap w) \<and> r \<noteq> atoms \<and> r < length (heap w')
          \<and> heap w' ! r = fst (relax X fmax steps (heap w ! atoms)))
    \<and> heap w' ! atoms = heap w ! atoms
    \<and> take (length (heap w)) (heap w') = heap w"
  using ref run unfolding optimize_structure_heap [OF ref]
  by (auto simp: nth_append split: if_splits option.splits)

theorem optimize_structure_frame_witness:
  "1 < length (heap sample_world)
   \<and> \<not> calc_available sample_env
   \<and> optimize_structure sample_env 1 0.05 200 sample_world = (1, sample_world)
   \<and> calc_available failing_env
   \<and> snd (relax failing_env 0.05 200 (heap sample_world ! 1)) \<noteq> None
   \<and> fst (optimize_structure failing_env 1 0.05 200 sample_world) = 1
   \<and> heap (snd (optimize_structure failing_env 1 0.05 200 sample_world)) ! 1
       = \<lparr>symbols = [''H'', ''H''], positions = [(0, 0, 0), (2, 0, 0)]\<rparr>
   \<and> calc_available converging_env
   \<and> snd (relax converging_env 0.05 200 (heap sample_world ! 1)) = None
   \<and> fst (optimize_structure converging_env 1 0.05 200 sample_world) = 2
   \<and> heap (snd (optimize_structure converging_env 1 0.05 200 sample_world)) ! 1
       = \<lparr>symbols = [''H'', ''H''], positions = [(0, 0, 0), (2, 0, 0)]\<rparr>
   \<and> heap (snd (optimize_structure converging_env 1 0.05 200 sample_world)) ! 2
       = \<lparr>symbols = [''H'', ''H''], positions = [(1, 0, 0), (3, 0, 0)]\<rparr>"
proof -
  have ref: "1 < length (heap sample_world)"
    by (simp add: sample_world_def)
  have old: "heap sample_world ! 1 = \<lparr>symbols = [''H'', ''H''], positions = [(0, 0, 0), (2, 0, 0)]\<rparr>"
    by (simp add: sample_world_def)
  have pair: "optimize_structure X 1 0.05 200 sample_world
      = (fst (optimize_structure X 1 0.05 200 sample_world), snd (optimize_structure X 1 0.05 200 sample_world))"
    for X by simp
  have nocalc: "\<not> calc_available sample_env"
    by (simp add: sample_env_def)
  have failing: "calc_available failing_env"
    "snd (relax failing_env 0.05 200 (heap sample_world ! 1)) \<noteq> None"
    by (simp_all add: failing_env_def)
  have converging: "calc_available converging_env"
    "snd (relax converging_env 0.05 200 (heap sample_world ! 1)) = None"
    by (simp_all add: converging_env_def)
  have moved: "fst (relax converging_env 0.05 200 (heap sample_world ! 1))
      = \<lparr>symbols = [''H'', ''H''], positions = [(1, 0, 0), (3, 0, 0)]\<rparr>"
    unfolding old by (simp add: converging_env_def translate_atoms_def)
  from optimize_structure_frame [OF ref pair [of sample_env]] nocalc
  have a: "optimize_structure sample_env 1 0.05 200 sample_world = (1, sample_world)"
    by (metis pair)
  from optimize_structure_frame [OF ref pair [of failing_env]] failing
  have b: "fst (optimize_structure failing_env 1 0.05 200 sample_world) = 1"
    "heap (snd (optimize_structure failing_env 1 0.05 200 sample_world)) ! 1 = heap sample_world ! 1"
    by blast+
  from optimize_structure_frame [OF ref pair [of converging_env]] converging
  have c: "fst (optimize_structure converging_env 1 0.05 200 sample_world) = length (heap sample_world)"
    "heap (snd (optimize_structure converging_env 1 0.05 200 sample_world)) ! 1 = heap sample_world ! 1"
    "heap (snd (optimize_structure converging_env 1 0.05 200 sample_world))
        ! fst (optimize_structure converging_env 1 0.05 200 sample_world)
      = fst (relax converging_env 0.05 200 (heap sample_world ! 1))"
    by blast+
  have len2: "length (heap sample_world) = 2"
    by (simp add: sample_world_def)
  show ?thesis
    using ref nocalc a failing b converging c moved old len2
    by simp
qed

section \<open>Properties of the property calculation\<close>

lemma block_Nil: "block [] d = (d, None)"
  by (simp add: block_def pass_def)

lemma block_Cons: "block (s # ss) d = then_stmt s (block ss) d"
  by (simp add: block_def)

lemma block_raise: "block (map assign ((key, Inl e) # post)) d = (d, Some e)"
  by (simp add: block_Cons then_stmt_def assign_def)

lemma block_prefix:
  "\<forall>s \<in> set pre. \<not> isl (snd s) \<Longrightarrow>
   block (map assign (pre @ rest)) d
     = block (map assign rest) (fold (\<lambda>s. set_item (fst s) (projr (snd s))) pre d)"
proof (induction pre arbitrary: d)
  case Nil
  show ?case by simp
next
  case (Cons s pre)
  from Cons.prems obtain v where v: "snd s = Inr v"
    by (cases "snd s") auto
  have "block (map assign ((s # pre) @ rest)) d
      = block (map assign (pre @ rest)) (set_item (fst s) v d)"
    by (simp add: block_Cons then_stmt_def assign_def v)
  also have "\<dots> = block (map assign rest)
      (fold (\<lambda>s. set_item (fst s) (projr (snd s))) pre (set_item (fst s) v d))"
    using Cons.prems by (intro Cons.IH) simp
  finally show ?case
    by (simp add: v)
qed

lemma set_item_fresh: "key \<notin> fst ` set d \<Longrightarrow> set_item key v d = d @ [(key, v)]"
  by (induction d) (auto simp: set_item_def)

lemma fold_set_item_fresh:
  "distinct (map fst pre) \<Longrightarrow> fst ` set pre \<inter> fst ` set d = {} \<Longrightarrow>
   fold (\<lambda>s. set_item (fst s) (projr (snd s))) pre d
     = d @ map (\<lambda>s. (fst s, projr (snd s))) pre"
proof (induction pre arbitrary: d)
  case Nil
  show ?case by simp
next
  case (Cons s pre)
  have fresh: "fst s \<notin> fst ` set d"
    using Cons.prems(2) by auto
  have "fst ` set pre \<inter> fst ` set (d @ [(fst s, projr (snd s))]) = {}"
    using Cons.prems by auto
  with Cons.prems(1) have
    "fold (\<lambda>s. set_item (fst s) (projr (snd s))) pre (d @ [(fst s, projr (snd s))])
       = (d @ [(fst s, projr (snd s))]) @ map (\<lambda>s. (fst s, projr (snd s))) pre"
    by (intro Cons.IH) simp_all
  then show ?case
    by (simp add: set_item_fresh [OF fresh])
qed

lemma property_key_list:
  "map fst (property_steps X a) =
     [''total_atoms'', ''molecular_volume'', ''center_of_mass'']
     @ (if calc_available X then [''total_energy'', ''forces_rms''] else [])
     @ [''homo_lumo_gap'', ''dipole_moment'', ''polarizability'', ''binding_energy'',
        ''binding_sites'', ''ir_frequencies'', ''uv_vis_absorption'']"
  by (simp add: property_steps_def)

lemma property_keys:
  "distinct (map fst (property_steps X a))"
  "''error'' \<notin> set (map fst (property_steps X a))"
  unfolding property_key_list by simp_all

text \<open>
  C6. \<^verbatim>\<open>calculate_properties\<close> always returns a dictionary. If the right-hand side of
  an assignment raises, all earlier ones having succeeded, the dictionary holds the
  entries of the earlier assignments, in order, followed by \<^verbatim>\<open>'error'\<close> with the
  message of the exception. If none raises it holds every entry.
\<close>

theorem calculate_properties_catches:
  "(\<exists>d. calculate_properties X a = Inr d)
   \<and> (\<forall>pre key e post.
         property_steps X a = pre @ (key, Inl e) # post \<and> (\<forall>s \<in> set pre. \<not> isl (snd s))
         \<longrightarrow> calculate_properties X a
               = Inr (map (\<lambda>s. (fst s, projr (snd s))) pre @ [(''error'', PyStr (str e))]))
   \<and> ((\<forall>s \<in> set (property_steps X a). \<not> isl (snd s))
        \<longrightarrow> calculate_properties X a
              = Inr (map (\<lambda>s. (fst s, projr (snd s))) (property_steps X a)))"
proof (intro conjI allI impI)
  show "\<exists>d. calculate_properties X a = Inr d"
    by (simp add: calculate_properties_def split: prod.splits option.splits)
next
  fix pre key e post
  assume h: "property_steps X a = pre @ (key, Inl e) # post \<and> (\<forall>s \<in> set pre. \<not> isl (snd s))"
  let ?entries = "map (\<lambda>s. (fst s, projr (snd s))) pre"
  from h property_keys [of X a] have keys: "distinct (map fst pre)" "''error'' \<notin> fst ` set pre"
    by auto
  have "fold (\<lambda>s. set_item (fst s) (projr (snd s))) pre [] = ?entries"
    using fold_set_item_fresh [of pre "[]"] keys(1) by simp
  moreover have "block (map assign (pre @ (key, Inl e) # post)) []
      = block (map assign ((key, Inl e) # post))
          (fold (\<lambda>s. set_item (fst s) (projr (snd s))) pre [])"
    using h by (intro block_prefix) simp
  ultimately have "block (map assign (property_steps X a)) [] = (?entries, Some e)"
    using h by (simp only: block_raise)
  moreover have "set_item ''error'' (PyStr (str e)) ?entries = ?entries @ [(''error'', PyStr (str e))]"
    using keys(2) by (intro set_item_fresh) (simp add: image_image)
  ultimately show "calculate_properties X a = Inr (?entries @ [(''error'', PyStr (str e))])"
    by (simp add: calculate_properties_def)
next
  assume h: "\<forall>s \<in> set (property_steps X a). \<not> isl (snd s)"
  let ?steps = "property_steps X a"
  have "fold (\<lambda>s. set_item (fst s) (projr (snd s))) ?steps []
      = map (\<lambda>s. (fst s, projr (snd s))) ?steps"
    using fold_set_item_fresh [of ?steps "[]"] property_keys(1) [of X a] by simp
  moreover have "block (map assign (?steps @ [])) []
      = block (map assign []) (fold (\<lambda>s. set_item (fst s) (projr (snd s))) ?steps [])"
    using h by (rule block_prefix)
  ultimately show "calculate_properties X a = Inr (map (\<lambda>s. (fst s, projr (snd s))) ?steps)"
    by (simp add: calculate_properties_def block_Nil)
qed

theorem calculate_properties_catches_witness:
  "property_steps no_model_env \<lparr>symbols = [''O''], positions = [(0, 0, 0)]\<rparr>
     = [(''total_atoms'', Inr (PyInt 1)),
        (''molecular_volume'',
           Inr (PyFloat (calculate_molecular_volume \<lparr>symbols = [''O''], positions = [(0, 0, 0)]\<rparr>))),
        (''center_of_mass'', Inr (PyFloatList [0, 0, 0]))]
       @ (''total_energy'', Inl (Error ''model not loaded''))
       # drop 4 (property_steps no_model_env \<lparr>symbols = [''O''], positions = [(0, 0, 0)]\<rparr>)
   \<and> calculate_properties no_model_env \<lparr>symbols = [''O''], positions = [(0, 0, 0)]\<rparr>
     = Inr [(''total_atoms'', PyInt 1),
            (''molecular_volume'',
               PyFloat (calculate_molecular_volume \<lparr>symbols = [''O''], positions = [(0, 0, 0)]\<rparr>)),
            (''center_of_mass'', PyFloatList [0, 0, 0]),
            (''error'', PyStr ''model not loaded'')]"
proof -
  let ?a = "\<lparr>symbols = [''O''], positions = [(0, 0, 0 :: real)]\<rparr>"
  let ?pre = "[(''total_atoms'', Inr (PyInt 1)),
        (''molecular_volume'', Inr (PyFloat (calculate_molecular_volume ?a))),
        (''center_of_mass'', Inr (PyFloatList [0, 0, 0]))] :: (string \<times> (error + pyval)) list"
  have com: "get_center_of_mass (mass no_model_env) ?a = (0, 0, 0)"
    by (simp add: get_center_of_mass_def get_masses_def vsum_def no_model_env_def sample_env_def)
  have steps: "property_steps no_model_env ?a
      = ?pre @ (''total_energy'', Inl (Error ''model not loaded''))
          # drop 4 (property_steps no_model_env ?a)"
    unfolding property_steps_def com
    by (simp add: no_model_env_def sample_env_def len_def)
  have ok: "\<forall>s \<in> set ?pre. \<not> isl (snd s)"
    by simp
  from calculate_properties_catches [of no_model_env ?a] steps ok
  have "calculate_properties no_model_env ?a
      = Inr (map (\<lambda>s. (fst s, projr (snd s))) ?pre @ [(''error'', PyStr (str (Error ''model not loaded'')))])"
    by blast
  then have "calculate_properties no_model_env ?a
     = Inr [(''total_atoms'', PyInt 1),
            (''molecular_volume'', PyFloat (calculate_molecular_volume ?a)),
            (''center_of_mass'', PyFloatList [0, 0, 0]),
            (''error'', PyStr ''model not loaded'')]"
    by simp
  with steps show ?thesis
    by blast
qed

section \<open>Properties of the pipeline\<close>







end
